theory Spec2Isabelle
  imports Complex_Main
begin

section \<open>Numbers and vectors\<close>

text \<open>
  JavaScript numbers are modelled as real numbers. Outside the asteroid code every
  arithmetic operation of the source is the exact operation on \<^typ>\<open>real\<close>, so IEEE
  rounding is outside the model there; the asteroid code is modelled with the rounding of
  doubles (see the section on double-precision arithmetic), because the placement of the
  fragments is compared with a bound that only exact arithmetic meets.
  A division whose divisor is zero yields \<open>Infinity\<close> or \<open>NaN\<close> in JavaScript; neither is
  a real number, so a model function that would perform such a division returns \<open>None\<close>.
  An absent property (\<open>undefined\<close>) or \<open>null\<close> is \<open>None\<close> of an option type.

  A vector object \<open>{ x, y }\<close> is the record \<open>vector\<close>; its fields are written \<open>vx\<close> and
  \<open>vy\<close> to keep them apart from the position fields \<open>x\<close> and \<open>y\<close> of an entity.
\<close>

record vector =
  vx :: real
  vy :: real

text \<open>\<open>a || d\<close> on an optional number: \<open>undefined\<close>, \<open>null\<close> and \<open>0\<close> are falsy.\<close>

definition js_or :: "real option \<Rightarrow> real \<Rightarrow> real" where
  "js_or a d = (case a of None \<Rightarrow> d | Some v \<Rightarrow> if v = 0 then d else v)"

text \<open>\<open>Utils.vector.fromAngle\<close>, \<open>magnitude\<close> and \<open>normalize\<close> (utils.js).\<close>

definition fromAngle :: "real \<Rightarrow> real \<Rightarrow> vector" where
  "fromAngle angle magn = \<lparr>vx = cos angle * magn, vy = sin angle * magn\<rparr>"

definition magnitude :: "vector \<Rightarrow> real" where
  "magnitude v = sqrt (vx v * vx v + vy v * vy v)"

definition normalize :: "vector \<Rightarrow> vector" where
  "normalize v =
     (let mag = magnitude v
      in if mag = 0 then \<lparr>vx = 0, vy = 0\<rparr>
         else \<lparr>vx = vx v / mag, vy = vy v / mag\<rparr>)"



text \<open>
  \<open>Utils.wrapPosition\<close> (utils.js): a coordinate below zero is replaced by the far edge,
  a coordinate beyond the far edge by zero, any other coordinate is kept.
\<close>

definition wrapPosition :: "real \<Rightarrow> real \<Rightarrow> real \<Rightarrow> real \<Rightarrow> real \<times> real" where
  "wrapPosition x0 y0 w h =
     (let newX = (if x0 < 0 then w else if x0 > w then 0 else x0);
          newY = (if y0 < 0 then h else if y0 > h then 0 else y0)
      in (newX, newY))"

section \<open>Physics components and entities\<close>

text \<open>The object returned by \<open>PhysicsEngine.createPhysicsComponent\<close>.\<close>

record physics_component =
  mass :: real
  velocity :: vector
  acceleration :: vector
  force :: vector
  damping :: real
  maxVelocity :: "real option"
  collisionRadius :: real
  restitution :: real
  screenWrap :: bool
  isStatic :: bool

text \<open>The \<open>options\<close> object read by \<open>createPhysicsComponent\<close>; every property may be absent.\<close>

record physics_options =
  opt_mass :: "real option"
  opt_damping :: "real option"
  opt_maxVelocity :: "real option"
  opt_collisionRadius :: "real option"
  opt_restitution :: "real option"
  opt_screenWrap :: "bool option"
  opt_isStatic :: "bool option"

definition no_options :: physics_options where
  "no_options = \<lparr>opt_mass = None, opt_damping = None, opt_maxVelocity = None,
     opt_collisionRadius = None, opt_restitution = None, opt_screenWrap = None,
     opt_isStatic = None\<rparr>"

definition createPhysicsComponent :: "physics_options \<Rightarrow> physics_component" where
  "createPhysicsComponent options =
     \<lparr>mass = js_or (opt_mass options) 1,
      velocity = \<lparr>vx = 0, vy = 0\<rparr>,
      acceleration = \<lparr>vx = 0, vy = 0\<rparr>,
      force = \<lparr>vx = 0, vy = 0\<rparr>,
      damping = js_or (opt_damping options) (99 / 100),
      maxVelocity = (case opt_maxVelocity options of None \<Rightarrow> None
                     | Some v \<Rightarrow> if v = 0 then None else Some v),
      collisionRadius = js_or (opt_collisionRadius options) 0,
      restitution = js_or (opt_restitution options) (8 / 10),
      screenWrap = (opt_screenWrap options \<noteq> Some False),
      isStatic = (case opt_isStatic options of None \<Rightarrow> False | Some b \<Rightarrow> b)\<rparr>"

text \<open>The health object built by the \<open>Entity\<close> constructor.\<close>

record health_component =
  current :: real
  max' :: real
  invulnerable :: bool
  invulnerabilityTime :: real

text \<open>
  The fields of the base class \<open>Entity\<close> that the simulation reads (entities.js); the
  type tag, colours, line width, glow, scale and animation clock only feed the renderer
  and the collision dispatch and are left out. Subclasses extend the record.
\<close>

record entity =
  x :: real
  y :: real
  rotation :: real
  alive :: bool
  rotationSpeed :: real
  physics :: "physics_component option"
  health :: "health_component option"

text \<open>The three fields set by the \<open>PhysicsEngine\<close> constructor (gravity is never read).\<close>

record engine =
  width :: real
  height :: real
  eng_damping :: real

definition PhysicsEngine :: "real \<Rightarrow> real \<Rightarrow> engine" where
  "PhysicsEngine w h = \<lparr>width = w, height = h, eng_damping = 99 / 100\<rparr>"

text \<open>
  \<open>PhysicsEngine.updateEntity\<close>. The result is \<open>None\<close> exactly when the source divides the
  force by a zero mass.
\<close>

definition updateEntity :: "engine \<Rightarrow> 'a entity_scheme \<Rightarrow> real \<Rightarrow> 'a entity_scheme option" where
  "updateEntity eng e deltaTime =
     (case physics e of
        None \<Rightarrow> Some e
      | Some p \<Rightarrow>
          if mass p = 0 then None
          else
            let dt = deltaTime / 1000;
                acc = \<lparr>vx = vx (force p) / mass p, vy = vy (force p) / mass p\<rparr>;
                v1 = \<lparr>vx = vx (velocity p) + vx acc * dt, vy = vy (velocity p) + vy acc * dt\<rparr>;
                d = js_or (Some (damping p)) (eng_damping eng);
                v2 = \<lparr>vx = vx v1 * d, vy = vy v1 * d\<rparr>;
                v3 = (case maxVelocity p of
                        None \<Rightarrow> v2
                      | Some mv \<Rightarrow>
                          if mv = 0 then v2
                          else if magnitude v2 > mv
                          then (let n = normalize v2 in \<lparr>vx = vx n * mv, vy = vy n * mv\<rparr>)
                          else v2);
                x1 = x e + vx v3 * dt;
                y1 = y e + vy v3 * dt;
                (x2, y2) = (if screenWrap p
                            then wrapPosition x1 y1 (width eng) (height eng)
                            else (x1, y1))
            in Some (e\<lparr>x := x2, y := y2,
                 physics := Some (p\<lparr>acceleration := acc, velocity := v3,
                                    force := \<lparr>vx = 0, vy = 0\<rparr>\<rparr>)\<rparr>))"




text \<open>The velocity of an entity's physics component, when it has one.\<close>

definition velocity_of :: "'a entity_scheme \<Rightarrow> vector option" where
  "velocity_of e = map_option velocity (physics e)"

section \<open>The base entity\<close>

text \<open>The properties of the \<open>options\<close> object that the \<open>Entity\<close> constructor reads for
  the fields above; \<open>eo_health\<close> is \<open>options.health.max\<close> when \<open>options.health\<close> is given.\<close>

record entity_options =
  eo_rotation :: "real option"
  eo_rotationSpeed :: "real option"
  eo_physics :: "physics_options option"
  eo_health :: "real option"

definition Entity :: "real \<Rightarrow> real \<Rightarrow> entity_options \<Rightarrow> entity" where
  "Entity ex ey options =
     \<lparr>x = ex, y = ey,
      rotation = js_or (eo_rotation options) 0,
      alive = True,
      rotationSpeed = js_or (eo_rotationSpeed options) 0,
      physics = map_option createPhysicsComponent (eo_physics options),
      health = map_option
                 (\<lambda>m. \<lparr>current = js_or (Some m) 100, max' = js_or (Some m) 100,
                        invulnerable = False, invulnerabilityTime = 0\<rparr>)
                 (eo_health options)\<rparr>"

text \<open>\<open>Entity.destroy\<close> and \<open>Entity.takeDamage\<close>; the boolean is the value returned.\<close>

definition destroy :: "'a entity_scheme \<Rightarrow> 'a entity_scheme" where
  "destroy e = e\<lparr>alive := False\<rparr>"

definition takeDamage :: "'a entity_scheme \<Rightarrow> real \<Rightarrow> 'a entity_scheme \<times> bool" where
  "takeDamage e amount =
     (case health e of
        None \<Rightarrow> (e, False)
      | Some h \<Rightarrow>
          if invulnerable h then (e, False)
          else
            let h1 = h\<lparr>current := current h - amount\<rparr>
            in if current h1 \<le> 0
               then (destroy (e\<lparr>health := Some (h1\<lparr>current := 0\<rparr>)\<rparr>), True)
               else (e\<lparr>health := Some (h1\<lparr>invulnerable := True,
                                            invulnerabilityTime := 500\<rparr>)\<rparr>, False))"

section \<open>Projectiles\<close>

text \<open>
  A projectile keeps a reference to its owner. The constructor reads the owner once, to
  add half its velocity, so the model stores the owner as it is at that moment.
\<close>

record projectile = entity +
  damage :: real
  speed :: real
  owner :: "entity option"
  lifetime :: real
  age :: real

text \<open>The \<open>options\<close> object passed to the \<open>Projectile\<close> constructor by the weapons; the
  colour and the custom draw function are left out.\<close>

record projectile_options =
  po_rotation :: "real option"
  po_owner :: "entity option"
  po_damage :: "real option"
  po_speed :: "real option"
  po_lifetime :: "real option"
  po_physics :: "physics_options option"

text \<open>
  The \<open>Projectile\<close> constructor. The spread \<open>...options\<close> replaces the default physics
  options as a whole when the caller passes a \<open>physics\<close> property.
\<close>

definition Projectile :: "real \<Rightarrow> real \<Rightarrow> projectile_options \<Rightarrow> projectile" where
  "Projectile px py options =
     (let base = Entity px py
            \<lparr>eo_rotation = po_rotation options,
             eo_rotationSpeed = None,
             eo_physics = Some (case po_physics options of
                                  None \<Rightarrow> no_options\<lparr>opt_mass := Some (1 / 10),
                                            opt_collisionRadius := Some 3,
                                            opt_screenWrap := Some False\<rparr>
                                | Some q \<Rightarrow> q),
             eo_health = None\<rparr>;
          spd = js_or (po_speed options) 300;
          v = fromAngle (rotation base) spd;
          v' = (case po_owner options of
                  None \<Rightarrow> v
                | Some ow \<Rightarrow>
                    (case physics ow of
                       None \<Rightarrow> v
                     | Some op \<Rightarrow> \<lparr>vx = vx v + vx (velocity op) * (1 / 2),
                                   vy = vy v + vy (velocity op) * (1 / 2)\<rparr>))
      in entity.extend
           (base\<lparr>physics := map_option (\<lambda>p. p\<lparr>velocity := v'\<rparr>) (physics base)\<rparr>)
           \<lparr>damage = js_or (po_damage options) 25,
            speed = spd,
            owner = po_owner options,
            lifetime = js_or (po_lifetime options) 3000,
            age = 0\<rparr>)"

section \<open>Ships: the player and the enemies\<close>

text \<open>
  \<open>Player\<close>, \<open>ScoutSaucer\<close>, \<open>HunterDrone\<close> and \<open>MarauderFrigate\<close> each set a numeric
  \<open>size\<close> that the weapons read; \<open>ship\<close> is an entity with that field.
\<close>

record ship = entity +
  size' :: real

text \<open>The fields shared by the player's weapon object and the class \<open>Weapon\<close>.\<close>

record weapon_core =
  fireRate :: real
  lastFired :: real
  heatPerShot :: real

text \<open>The object literal \<open>this.weapon\<close> of the \<open>Player\<close> constructor.\<close>

record player_weapon = weapon_core +
  heat :: real
  maxHeat :: real
  cooldownRate :: real
  overheated :: bool

record player = ship +
  weapon :: player_weapon
  autoFire :: bool

text \<open>The class \<open>Weapon\<close> (weapons.js); the owner is passed to \<open>fire\<close> as it is at the
  time of the call.\<close>

record weapon = weapon_core +
  w_damage :: real
  projectileSpeed :: real
  projectileLifetime :: real

record weapon_options =
  wo_fireRate :: "real option"
  wo_damage :: "real option"
  wo_projectileSpeed :: "real option"
  wo_projectileLifetime :: "real option"
  wo_heatPerShot :: "real option"

definition no_weapon_options :: weapon_options where
  "no_weapon_options = \<lparr>wo_fireRate = None, wo_damage = None, wo_projectileSpeed = None,
     wo_projectileLifetime = None, wo_heatPerShot = None\<rparr>"

definition Weapon :: "weapon_options \<Rightarrow> weapon" where
  "Weapon options =
     \<lparr>fireRate = js_or (wo_fireRate options) 500,
      lastFired = 0,
      heatPerShot = js_or (wo_heatPerShot options) 10,
      w_damage = js_or (wo_damage options) 10,
      projectileSpeed = js_or (wo_projectileSpeed options) 300,
      projectileLifetime = js_or (wo_projectileLifetime options) 2000\<rparr>"

text \<open>\<open>{ defaults, ...options }\<close>: a property the caller gives replaces the default.\<close>

definition or_else :: "'a option \<Rightarrow> 'a \<Rightarrow> 'a option" where
  "or_else a d = (case a of None \<Rightarrow> Some d | Some v \<Rightarrow> Some v)"

definition Blaster :: "weapon_options \<Rightarrow> weapon" where
  "Blaster options =
     Weapon \<lparr>wo_fireRate = or_else (wo_fireRate options) 200,
             wo_damage = or_else (wo_damage options) 20,
             wo_projectileSpeed = or_else (wo_projectileSpeed options) 400,
             wo_projectileLifetime = wo_projectileLifetime options,
             wo_heatPerShot = or_else (wo_heatPerShot options) 12\<rparr>"

definition PlasmaCannon :: "weapon_options \<Rightarrow> weapon" where
  "PlasmaCannon options =
     Weapon \<lparr>wo_fireRate = or_else (wo_fireRate options) 800,
             wo_damage = or_else (wo_damage options) 80,
             wo_projectileSpeed = or_else (wo_projectileSpeed options) 250,
             wo_projectileLifetime = wo_projectileLifetime options,
             wo_heatPerShot = or_else (wo_heatPerShot options) 35\<rparr>"

text \<open>The \<open>Player\<close> and \<open>ScoutSaucer\<close> constructors, called without options.\<close>

definition Player :: "real \<Rightarrow> real \<Rightarrow> player" where
  "Player px py =
     entity.extend
       (Entity px py
          \<lparr>eo_rotation = None,
           eo_rotationSpeed = None,
           eo_physics = Some (no_options\<lparr>opt_mass := Some 1, opt_maxVelocity := Some 300,
                                opt_collisionRadius := Some 12,
                                opt_damping := Some (98 / 100)\<rparr>),
           eo_health = Some 100\<rparr>\<lparr>rotationSpeed := 3\<rparr>)
       \<lparr>size' = 15,
        weapon = \<lparr>fireRate = 200, lastFired = 0, heatPerShot = 15,
                   heat = 0, maxHeat = 100, cooldownRate = 30, overheated = False\<rparr>,
        autoFire = False\<rparr>"

definition ScoutSaucer :: "real \<Rightarrow> real \<Rightarrow> ship" where
  "ScoutSaucer sx sy =
     entity.extend
       (Entity sx sy
          \<lparr>eo_rotation = None,
           eo_rotationSpeed = None,
           eo_physics = Some (no_options\<lparr>opt_mass := Some (1 / 2), opt_maxVelocity := Some 150,
                                opt_collisionRadius := Some 15,
                                opt_damping := Some (95 / 100)\<rparr>),
           eo_health = Some 30\<rparr>)
       \<lparr>size' = 15\<rparr>"

definition ScoutSaucer_weapon :: weapon where
  "ScoutSaucer_weapon =
     Blaster (no_weapon_options\<lparr>wo_fireRate := Some 1500, wo_damage := Some 15,
                wo_projectileSpeed := Some 200\<rparr>)"

section \<open>Double-precision arithmetic\<close>






section \<open>Random numbers\<close>






section \<open>Asteroids\<close>



text \<open>The field \<open>size\<close> of an asteroid holds the size name; it is written
  \<open>asteroid_size\<close> here.\<close>

record asteroid = entity +
  asteroid_size :: string
  radius :: real
  points :: "vector list"
  scoreValue :: real







section \<open>The game's entity list and firing\<close>

datatype game_entity =
    PlayerEntity player
  | EnemyEntity ship
  | AsteroidEntity asteroid
  | ProjectileEntity projectile

text \<open>Of the class \<open>Game\<close> (particles.js), firing only uses \<open>addEntity\<close>; the sound
  request goes to an external collaborator and leaves no trace in the model.\<close>

record game =
  entities :: "game_entity list"

definition addEntity :: "game \<Rightarrow> game_entity \<Rightarrow> game" where
  "addEntity gm e = gm\<lparr>entities := entities gm @ [e]\<rparr>"

text \<open>
  \<open>Player.fire\<close>. \<open>Date.now()\<close> is the argument \<open>now\<close>. The projectile receives the
  player itself as owner.
\<close>

definition fire :: "real \<Rightarrow> player \<times> game \<Rightarrow> player \<times> game" where
  "fire now s =
     (let (pl, gm) = s; w = weapon pl
      in if now - lastFired w < fireRate w \<or> overheated w then (pl, gm)
         else
           let h = heat w + heatPerShot w;
               w1 = w\<lparr>heat := h, overheated := (if h \<ge> maxHeat w then True else overheated w)\<rparr>;
               pl1 = pl\<lparr>weapon := w1\<rparr>;
               projectileX = x pl1 + cos (rotation pl1) * size' pl1;
               projectileY = y pl1 + sin (rotation pl1) * size' pl1;
               proj = Projectile projectileX projectileY
                        \<lparr>po_rotation = Some (rotation pl1),
                         po_owner = Some (entity.truncate pl1),
                         po_damage = Some 25,
                         po_speed = Some 400,
                         po_lifetime = None,
                         po_physics = None\<rparr>
           in (pl1\<lparr>weapon := w1\<lparr>lastFired := now\<rparr>\<rparr>, addEntity gm (ProjectileEntity proj)))"




section \<open>The weapon classes\<close>

text \<open>\<open>Weapon.canFire\<close> and the body of \<open>Weapon.fire\<close>; one clock reading serves both.\<close>

definition canFire :: "'a weapon_core_scheme \<Rightarrow> real \<Rightarrow> bool" where
  "canFire w now \<longleftrightarrow> now - lastFired w \<ge> fireRate w"

definition Weapon_fire :: "weapon \<Rightarrow> real \<Rightarrow> weapon" where
  "Weapon_fire w now = (if \<not> canFire w now then w else w\<lparr>lastFired := now\<rparr>)"

text \<open>\<open>Blaster.fire\<close> and \<open>PlasmaCannon.fire\<close>, with the owner as it is at the call.\<close>

definition Blaster_fire :: "weapon \<Rightarrow> 'a ship_scheme \<Rightarrow> real \<Rightarrow> game \<Rightarrow> weapon \<times> game" where
  "Blaster_fire w ow now gm =
     (if \<not> canFire w now then (w, gm)
      else
        let w1 = Weapon_fire w now;
            projectileX = x ow + cos (rotation ow) * size' ow;
            projectileY = y ow + sin (rotation ow) * size' ow;
            proj = Projectile projectileX projectileY
                     \<lparr>po_rotation = Some (rotation ow),
                      po_owner = Some (entity.truncate ow),
                      po_damage = Some (w_damage w1),
                      po_speed = Some (projectileSpeed w1),
                      po_lifetime = Some (projectileLifetime w1),
                      po_physics = None\<rparr>
        in (w1, addEntity gm (ProjectileEntity proj)))"

definition PlasmaCannon_fire :: "weapon \<Rightarrow> 'a ship_scheme \<Rightarrow> real \<Rightarrow> game \<Rightarrow> weapon \<times> game" where
  "PlasmaCannon_fire w ow now gm =
     (if \<not> canFire w now then (w, gm)
      else
        let w1 = Weapon_fire w now;
            projectileX = x ow + cos (rotation ow) * size' ow;
            projectileY = y ow + sin (rotation ow) * size' ow;
            proj = Projectile projectileX projectileY
                     \<lparr>po_rotation = Some (rotation ow),
                      po_owner = Some (entity.truncate ow),
                      po_damage = Some (w_damage w1),
                      po_speed = Some (projectileSpeed w1),
                      po_lifetime = Some (projectileLifetime w1),
                      po_physics = Some (no_options\<lparr>opt_collisionRadius := Some 8\<rparr>)\<rparr>
        in (w1, addEntity gm (ProjectileEntity proj)))"

text \<open>The projectiles of an entity list, in order.\<close>

fun projectiles_of :: "game_entity list \<Rightarrow> projectile list" where
  "projectiles_of [] = []"
| "projectiles_of (ProjectileEntity p # es) = p # projectiles_of es"
| "projectiles_of (_ # es) = projectiles_of es"

section \<open>Auxiliary facts\<close>

lemma js_or_Some: "js_or (Some v) d = (if v = 0 then d else v)"
  by (simp add: js_or_def)

lemma js_or_nonzero: "d \<noteq> 0 \<Longrightarrow> js_or a d \<noteq> 0"
  by (simp add: js_or_def split: option.splits)

lemma wrapPosition_range:
  assumes "0 \<le> w" and "0 \<le> h"
  shows "0 \<le> fst (wrapPosition x0 y0 w h) \<and> fst (wrapPosition x0 y0 w h) \<le> w
       \<and> 0 \<le> snd (wrapPosition x0 y0 w h) \<and> snd (wrapPosition x0 y0 w h) \<le> h"
  using assms by (simp add: wrapPosition_def Let_def)

text \<open>With a non-zero mass the integration step returns, and the new position is the
  old one advanced by the new velocity, wrapped when the component asks for it.\<close>

lemma updateEntity_Some:
  assumes "physics e = Some p" and "mass p \<noteq> 0"
  shows "\<exists>e' p'. updateEntity eng e deltaTime = Some e' \<and> physics e' = Some p'
           \<and> (x e', y e') =
               (let x1 = x e + vx (velocity p') * (deltaTime / 1000);
                    y1 = y e + vy (velocity p') * (deltaTime / 1000)
                in if screenWrap p then wrapPosition x1 y1 (width eng) (height eng)
                   else (x1, y1))"
  using assms
  by (simp add: updateEntity_def Let_def split: prod.splits)

lemma truncate_physics: "physics (entity.truncate e) = physics e"
  by (simp add: entity.truncate_def)

text \<open>The velocity a new projectile starts with.\<close>

lemma Projectile_velocity:
  "velocity_of (Projectile px py options) =
     Some (let v = fromAngle (js_or (po_rotation options) 0) (js_or (po_speed options) 300)
           in case po_owner options of
                None \<Rightarrow> v
              | Some ow \<Rightarrow>
                  (case physics ow of
                     None \<Rightarrow> v
                   | Some op \<Rightarrow> \<lparr>vx = vx v + vx (velocity op) * (1 / 2),
                                 vy = vy v + vy (velocity op) * (1 / 2)\<rparr>))"
  by (simp add: Projectile_def velocity_of_def Entity_def entity.extend_def Let_def
      split: option.splits)






















section \<open>Weapons: the velocity of a new projectile\<close>

text \<open>
  Claim C1, as the specification states it, says that only the player's weapon adds half
  the owner's velocity to a new projectile, and that projectiles of enemy weapons start
  with the bare aimed velocity. The source does not make that difference: the bonus is
  added by the \<open>Projectile\<close> constructor for every owner that has a physics component.
  A scout saucer drifting at 10 units per second along its line of fire shoots its blaster
  projectile (speed 200) at 205, not 200.
\<close>

theorem enemy_projectile_velocity_counterexample:
  "map velocity_of
     (projectiles_of (entities (snd
        (Blaster_fire ScoutSaucer_weapon
           ((ScoutSaucer 100 100)
              \<lparr>physics := map_option (\<lambda>p. p\<lparr>velocity := \<lparr>vx = 10, vy = 0\<rparr>\<rparr>)
                            (physics (ScoutSaucer 100 100))\<rparr>)
           2000 \<lparr>entities = []\<rparr>))))
     = [Some \<lparr>vx = 205, vy = 0\<rparr>]
   \<and> fromAngle (rotation (ScoutSaucer 100 100)) (projectileSpeed ScoutSaucer_weapon)
     = \<lparr>vx = 200, vy = 0\<rparr>"
  by (simp add: Blaster_fire_def canFire_def Weapon_fire_def ScoutSaucer_weapon_def Blaster_def
      Weapon_def or_else_def no_weapon_options_def js_or_def ScoutSaucer_def Entity_def
      entity.extend_def addEntity_def Projectile_velocity truncate_physics fromAngle_def
      createPhysicsComponent_def no_options_def Let_def)

text \<open>
  Claim C1, amended: a shot of \<open>Player.fire\<close>, \<open>Blaster.fire\<close> or \<open>PlasmaCannon.fire\<close>
  that is let through adds one projectile to the game, whose velocity is the direction
  of the owner's rotation scaled by the projectile speed (400 for the player, the
  weapon's non-zero \<open>projectileSpeed\<close> otherwise), plus half the owner's velocity whenever
  the owner has a physics component, whoever the owner is.
\<close>

theorem projectile_initial_velocity:
  "(now - lastFired (weapon pl) \<ge> fireRate (weapon pl) \<and> \<not> overheated (weapon pl) \<longrightarrow>
      (\<exists>p. snd (fire now (pl, gm)) = addEntity gm (ProjectileEntity p)
         \<and> velocity_of p =
             Some (case physics pl of
                     None \<Rightarrow> fromAngle (rotation pl) 400
                   | Some op \<Rightarrow>
                       \<lparr>vx = vx (fromAngle (rotation pl) 400) + vx (velocity op) * (1 / 2),
                        vy = vy (fromAngle (rotation pl) 400) + vy (velocity op) * (1 / 2)\<rparr>)))
   \<and> (canFire w t \<and> projectileSpeed w \<noteq> 0 \<longrightarrow>
      (\<exists>p. snd (Blaster_fire w ow t gm) = addEntity gm (ProjectileEntity p)
         \<and> velocity_of p =
             Some (case physics ow of
                     None \<Rightarrow> fromAngle (rotation ow) (projectileSpeed w)
                   | Some op \<Rightarrow>
                       \<lparr>vx = vx (fromAngle (rotation ow) (projectileSpeed w))
                               + vx (velocity op) * (1 / 2),
                        vy = vy (fromAngle (rotation ow) (projectileSpeed w))
                               + vy (velocity op) * (1 / 2)\<rparr>)))
   \<and> (canFire w t \<and> projectileSpeed w \<noteq> 0 \<longrightarrow>
      (\<exists>p. snd (PlasmaCannon_fire w ow t gm) = addEntity gm (ProjectileEntity p)
         \<and> velocity_of p =
             Some (case physics ow of
                     None \<Rightarrow> fromAngle (rotation ow) (projectileSpeed w)
                   | Some op \<Rightarrow>
                       \<lparr>vx = vx (fromAngle (rotation ow) (projectileSpeed w))
                               + vx (velocity op) * (1 / 2),
                        vy = vy (fromAngle (rotation ow) (projectileSpeed w))
                               + vy (velocity op) * (1 / 2)\<rparr>)))"
proof (intro conjI impI)
  assume a: "now - lastFired (weapon pl) \<ge> fireRate (weapon pl) \<and> \<not> overheated (weapon pl)"
  show "\<exists>p. snd (fire now (pl, gm)) = addEntity gm (ProjectileEntity p)
         \<and> velocity_of p =
             Some (case physics pl of
                     None \<Rightarrow> fromAngle (rotation pl) 400
                   | Some op \<Rightarrow>
                       \<lparr>vx = vx (fromAngle (rotation pl) 400) + vx (velocity op) * (1 / 2),
                        vy = vy (fromAngle (rotation pl) 400) + vy (velocity op) * (1 / 2)\<rparr>)"
    using a
    by (auto simp add: fire_def Let_def Projectile_velocity truncate_physics js_or_Some
        fromAngle_def split: option.splits)
next
  assume a: "canFire w t \<and> projectileSpeed w \<noteq> 0"
  show "\<exists>p. snd (Blaster_fire w ow t gm) = addEntity gm (ProjectileEntity p)
         \<and> velocity_of p =
             Some (case physics ow of
                     None \<Rightarrow> fromAngle (rotation ow) (projectileSpeed w)
                   | Some op \<Rightarrow>
                       \<lparr>vx = vx (fromAngle (rotation ow) (projectileSpeed w))
                               + vx (velocity op) * (1 / 2),
                        vy = vy (fromAngle (rotation ow) (projectileSpeed w))
                               + vy (velocity op) * (1 / 2)\<rparr>)"
    using a
    by (auto simp add: Blaster_fire_def Weapon_fire_def Let_def Projectile_velocity
        truncate_physics js_or_Some fromAngle_def split: option.splits)
next
  assume a: "canFire w t \<and> projectileSpeed w \<noteq> 0"
  show "\<exists>p. snd (PlasmaCannon_fire w ow t gm) = addEntity gm (ProjectileEntity p)
         \<and> velocity_of p =
             Some (case physics ow of
                     None \<Rightarrow> fromAngle (rotation ow) (projectileSpeed w)
                   | Some op \<Rightarrow>
                       \<lparr>vx = vx (fromAngle (rotation ow) (projectileSpeed w))
                               + vx (velocity op) * (1 / 2),
                        vy = vy (fromAngle (rotation ow) (projectileSpeed w))
                               + vy (velocity op) * (1 / 2)\<rparr>)"
    using a
    by (auto simp add: PlasmaCannon_fire_def Weapon_fire_def Let_def Projectile_velocity
        truncate_physics js_or_Some fromAngle_def split: option.splits)
qed

text \<open>The amended claim at a player at rest that fires at time 200 and at a hunter-like
  ship moving at \<open>(6, 8)\<close> whose blaster and plasma cannon fire at time 2000.\<close>

theorem projectile_initial_velocity_witness:
  "(\<exists>p. snd (fire 200 (Player 400 300, \<lparr>entities = []\<rparr>))
           = addEntity \<lparr>entities = []\<rparr> (ProjectileEntity p)
        \<and> velocity_of p = Some \<lparr>vx = 400, vy = 0\<rparr>)
   \<and> (\<exists>p. snd (Blaster_fire ScoutSaucer_weapon
                 ((ScoutSaucer 100 100)
                    \<lparr>physics := Some ((createPhysicsComponent no_options)
                                        \<lparr>velocity := \<lparr>vx = 6, vy = 8\<rparr>\<rparr>)\<rparr>)
                 2000 \<lparr>entities = []\<rparr>)
           = addEntity \<lparr>entities = []\<rparr> (ProjectileEntity p)
        \<and> velocity_of p = Some \<lparr>vx = 203, vy = 4\<rparr>)
   \<and> (\<exists>p. snd (PlasmaCannon_fire ScoutSaucer_weapon
                 ((ScoutSaucer 100 100)
                    \<lparr>physics := Some ((createPhysicsComponent no_options)
                                        \<lparr>velocity := \<lparr>vx = 6, vy = 8\<rparr>\<rparr>)\<rparr>)
                 2000 \<lparr>entities = []\<rparr>)
           = addEntity \<lparr>entities = []\<rparr> (ProjectileEntity p)
        \<and> velocity_of p = Some \<lparr>vx = 203, vy = 4\<rparr>)"
  using projectile_initial_velocity
    [where now = 200 and pl = "Player 400 300" and gm = "\<lparr>entities = []\<rparr>"
       and w = ScoutSaucer_weapon and t = 2000
       and ow = "(ScoutSaucer 100 100)
           \<lparr>physics := Some ((createPhysicsComponent no_options)
                               \<lparr>velocity := \<lparr>vx = 6, vy = 8\<rparr>\<rparr>)\<rparr>"]
  by (simp add: Player_def ScoutSaucer_def ScoutSaucer_weapon_def Blaster_def Weapon_def
      or_else_def no_weapon_options_def js_or_def canFire_def Entity_def entity.extend_def
      createPhysicsComponent_def no_options_def fromAngle_def)

section \<open>Damage\<close>

text \<open>
  Claim C2: an entity whose health is 10 of 100 and that is not invulnerable takes 15
  damage: its health becomes 0, it is destroyed, and the call returns true. While an
  entity is invulnerable, \<open>takeDamage\<close> returns false and changes nothing; in particular
  a hit that the entity survives opens the invulnerability window, and a second call after
  it has no effect. A further non-negative hit on the entity that just died leaves its
  state as it is, too.
\<close>

theorem takeDamage_lethal_and_invulnerable:
  "(health e = Some h \<and> current h = 10 \<and> max' h = 100 \<and> \<not> invulnerable h \<longrightarrow>
      takeDamage e 15 = (e\<lparr>alive := False, health := Some (h\<lparr>current := 0\<rparr>)\<rparr>, True))
   \<and> (health e = Some h \<and> invulnerable h \<longrightarrow> takeDamage e amount = (e, False))
   \<and> (health e = Some h \<and> \<not> invulnerable h \<and> current h - amount > 0 \<longrightarrow>
        takeDamage (fst (takeDamage e amount)) amount2 = (fst (takeDamage e amount), False))
   \<and> (health e = Some h \<and> current h = 10 \<and> max' h = 100 \<and> \<not> invulnerable h
        \<and> 0 \<le> amount2 \<longrightarrow>
        fst (takeDamage (fst (takeDamage e 15)) amount2) = fst (takeDamage e 15))"
  by (simp add: takeDamage_def destroy_def Let_def)

text \<open>The claim at an entity with health 10 of 100 (lethal hit of 15, then a second hit of 15),
  and at the same entity hit by 4 and then by 15 inside the window.\<close>

theorem takeDamage_lethal_and_invulnerable_witness:
  "takeDamage
     \<lparr>x = 0, y = 0, rotation = 0, alive = True, rotationSpeed = 0, physics = None,
      health = Some \<lparr>current = 10, max' = 100, invulnerable = False,
                     invulnerabilityTime = 0\<rparr>\<rparr> 15
     = (\<lparr>x = 0, y = 0, rotation = 0, alive = False, rotationSpeed = 0, physics = None,
         health = Some \<lparr>current = 0, max' = 100, invulnerable = False,
                        invulnerabilityTime = 0\<rparr>\<rparr>, True)
   \<and> takeDamage
       (fst (takeDamage
          \<lparr>x = 0, y = 0, rotation = 0, alive = True, rotationSpeed = 0, physics = None,
           health = Some \<lparr>current = 10, max' = 100, invulnerable = False,
                          invulnerabilityTime = 0\<rparr>\<rparr> 4)) 15
     = (\<lparr>x = 0, y = 0, rotation = 0, alive = True, rotationSpeed = 0, physics = None,
         health = Some \<lparr>current = 6, max' = 100, invulnerable = True,
                        invulnerabilityTime = 500\<rparr>\<rparr>, False)
   \<and> fst (takeDamage
       (fst (takeDamage
          \<lparr>x = 0, y = 0, rotation = 0, alive = True, rotationSpeed = 0, physics = None,
           health = Some \<lparr>current = 10, max' = 100, invulnerable = False,
                          invulnerabilityTime = 0\<rparr>\<rparr> 15)) 15)
     = \<lparr>x = 0, y = 0, rotation = 0, alive = False, rotationSpeed = 0, physics = None,
        health = Some \<lparr>current = 0, max' = 100, invulnerable = False,
                       invulnerabilityTime = 0\<rparr>\<rparr>"
  using takeDamage_lethal_and_invulnerable
    [where e = "\<lparr>x = 0, y = 0, rotation = 0, alive = True, rotationSpeed = 0,
          physics = None,
          health = Some \<lparr>current = 10, max' = 100, invulnerable = False,
                         invulnerabilityTime = 0\<rparr>\<rparr>"
       and h = "\<lparr>current = 10, max' = 100, invulnerable = False, invulnerabilityTime = 0\<rparr>"
       and amount = 4 and ?amount2.0 = 15]
  by (simp add: takeDamage_def destroy_def Let_def)

section \<open>Screen wrapping\<close>

text \<open>
  Claim C3, as the specification states it, says that a step with screen wrap enabled
  leaves the position in \<open>[0, width) \<times> [0, height)\<close>, never at \<open>x = width\<close>, and that the
  overshoot is kept modulo the width. The source replaces a negative coordinate by the
  far edge itself: an entity at \<open>x = 1\<close> moving left at 125 units per second is at
  \<open>x = -1\<close> after 16 ms and is put at \<open>x = 800 = width\<close>, where a toroidal wrap gives 799.
\<close>

theorem updateEntity_wrap_counterexample:
  "map_option x
     (updateEntity (PhysicsEngine 800 600)
        \<lparr>x = 1, y = 300, rotation = 0, alive = True, rotationSpeed = 0,
         physics = Some ((createPhysicsComponent (no_options\<lparr>opt_damping := Some 1\<rparr>))
                           \<lparr>velocity := \<lparr>vx = - 125, vy = 0\<rparr>\<rparr>),
         health = None\<rparr>
        16) = Some 800
   \<and> width (PhysicsEngine 800 600) = 800"
  by (simp add: updateEntity_def PhysicsEngine_def createPhysicsComponent_def
      js_or_def no_options_def wrapPosition_def Let_def)

text \<open>
  Claim C3, amended: for an entity whose physics component has a non-zero mass and screen
  wrap enabled, in an engine of non-negative width and height, one step returns and
  leaves the position in the closed range \<open>[0, width] \<times> [0, height]\<close>: a coordinate that
  the integration moved below zero becomes the width (the height), one moved beyond the
  width (the height) becomes zero, and any other coordinate, the edge itself included,
  stays where the integration put it.
\<close>

theorem updateEntity_wrap_closed_range:
  assumes "physics e = Some p" and "mass p \<noteq> 0" and "screenWrap p"
    and "0 \<le> width eng" and "0 \<le> height eng"
  shows "\<exists>e' p'. updateEntity eng e deltaTime = Some e' \<and> physics e' = Some p'
           \<and> 0 \<le> x e' \<and> x e' \<le> width eng \<and> 0 \<le> y e' \<and> y e' \<le> height eng
           \<and> (let x1 = x e + vx (velocity p') * (deltaTime / 1000)
              in x e' = (if x1 < 0 then width eng else if x1 > width eng then 0 else x1))
           \<and> (let y1 = y e + vy (velocity p') * (deltaTime / 1000)
              in y e' = (if y1 < 0 then height eng else if y1 > height eng then 0 else y1))"
proof -
  from updateEntity_Some [OF assms(1,2), of eng deltaTime]
  obtain e' p' where
    u: "updateEntity eng e deltaTime = Some e'" "physics e' = Some p'"
    and pos: "(x e', y e') =
               (let x1 = x e + vx (velocity p') * (deltaTime / 1000);
                    y1 = y e + vy (velocity p') * (deltaTime / 1000)
                in if screenWrap p then wrapPosition x1 y1 (width eng) (height eng)
                   else (x1, y1))"
    by blast
  define x1 where "x1 = x e + vx (velocity p') * (deltaTime / 1000)"
  define y1 where "y1 = y e + vy (velocity p') * (deltaTime / 1000)"
  from pos assms(3) have w: "(x e', y e') = wrapPosition x1 y1 (width eng) (height eng)"
    by (simp add: Let_def x1_def y1_def)
  then have xe: "x e' = fst (wrapPosition x1 y1 (width eng) (height eng))"
    and ye: "y e' = snd (wrapPosition x1 y1 (width eng) (height eng))"
    by (metis fst_conv, metis snd_conv)
  from wrapPosition_range [OF assms(4,5), of x1 y1] xe ye
  have inside: "0 \<le> x e' \<and> x e' \<le> width eng \<and> 0 \<le> y e' \<and> y e' \<le> height eng"
    by simp
  have snapx: "x e' = (if x1 < 0 then width eng else if x1 > width eng then 0 else x1)"
    using xe by (simp add: wrapPosition_def Let_def)
  have snapy: "y e' = (if y1 < 0 then height eng else if y1 > height eng then 0 else y1)"
    using ye by (simp add: wrapPosition_def Let_def)
  show ?thesis
    using u inside snapx snapy unfolding x1_def y1_def Let_def by blast
qed

text \<open>The amended claim at an entity that leaves the 800 by 600 screen on the right.\<close>

theorem updateEntity_wrap_closed_range_witness:
  "\<exists>e' p'. updateEntity (PhysicsEngine 800 600)
        \<lparr>x = 799, y = 300, rotation = 0, alive = True, rotationSpeed = 0,
         physics = Some ((createPhysicsComponent (no_options\<lparr>opt_damping := Some 1\<rparr>))
                           \<lparr>velocity := \<lparr>vx = 125, vy = 0\<rparr>\<rparr>),
         health = None\<rparr> 16 = Some e'
      \<and> physics e' = Some p'
      \<and> 0 \<le> x e' \<and> x e' \<le> width (PhysicsEngine 800 600)
      \<and> 0 \<le> y e' \<and> y e' \<le> height (PhysicsEngine 800 600)
      \<and> (let x1 = x \<lparr>x = 799, y = 300, rotation = 0, alive = True, rotationSpeed = 0,
                      physics = Some ((createPhysicsComponent
                                         (no_options\<lparr>opt_damping := Some 1\<rparr>))
                                        \<lparr>velocity := \<lparr>vx = 125, vy = 0\<rparr>\<rparr>),
                      health = None\<rparr>
                  + vx (velocity p') * (16 / 1000)
          in x e' = (if x1 < 0 then width (PhysicsEngine 800 600)
                     else if x1 > width (PhysicsEngine 800 600) then 0 else x1))
      \<and> (let y1 = y \<lparr>x = 799, y = 300, rotation = 0, alive = True, rotationSpeed = 0,
                      physics = Some ((createPhysicsComponent
                                         (no_options\<lparr>opt_damping := Some 1\<rparr>))
                                        \<lparr>velocity := \<lparr>vx = 125, vy = 0\<rparr>\<rparr>),
                      health = None\<rparr>
                  + vy (velocity p') * (16 / 1000)
          in y e' = (if y1 < 0 then height (PhysicsEngine 800 600)
                     else if y1 > height (PhysicsEngine 800 600) then 0 else y1))"
proof -
  let ?p = "(createPhysicsComponent (no_options\<lparr>opt_damping := Some 1\<rparr>))
              \<lparr>velocity := \<lparr>vx = 125, vy = 0\<rparr>\<rparr>"
  let ?e = "\<lparr>x = 799, y = 300, rotation = 0, alive = True, rotationSpeed = 0,
             physics = Some ?p, health = None\<rparr>"
  have h1: "physics ?e = Some ?p" by simp
  have h2: "mass ?p \<noteq> 0"
    by (simp add: createPhysicsComponent_def js_or_def no_options_def)
  have h3: "screenWrap ?p"
    by (simp add: createPhysicsComponent_def no_options_def)
  have h4: "0 \<le> width (PhysicsEngine 800 600)" and h5: "0 \<le> height (PhysicsEngine 800 600)"
    by (simp_all add: PhysicsEngine_def)
  show ?thesis
    by (rule updateEntity_wrap_closed_range [OF h1 h2 h3 h4 h5, of 16])
qed

text \<open>
  Claim C4: for a width and a height above 1, \<open>wrapPosition\<close> sends \<open>x = width + 1\<close> to 0
  and \<open>x = -1\<close> to the width, sends \<open>y = height + 1\<close> to 0 and \<open>y = -1\<close> to the height, and
  keeps a coordinate that lies within the screen.
\<close>

theorem wrapPosition_edges:
  assumes "w > 1" and "h > 1"
  shows "fst (wrapPosition (w + 1) y0 w h) = 0
       \<and> fst (wrapPosition (- 1) y0 w h) = w
       \<and> snd (wrapPosition x0 (h + 1) w h) = 0
       \<and> snd (wrapPosition x0 (- 1) w h) = h
       \<and> (0 \<le> y0 \<and> y0 \<le> h \<longrightarrow> snd (wrapPosition x0 y0 w h) = y0)
       \<and> (0 \<le> x0 \<and> x0 \<le> w \<longrightarrow> fst (wrapPosition x0 y0 w h) = x0)"
  using assms by (simp add: wrapPosition_def Let_def)

text \<open>The claim on the 800 by 600 screen.\<close>

theorem wrapPosition_edges_witness:
  "wrapPosition 801 300 800 600 = (0, 300) \<and> wrapPosition (- 1) 300 800 600 = (800, 300)
   \<and> wrapPosition 400 601 800 600 = (400, 0) \<and> wrapPosition 400 (- 1) 800 600 = (400, 600)"
proof -
  have h1: "(1::real) < 800" and h2: "(1::real) < 600" by simp_all
  from wrapPosition_edges [OF h1 h2, of 300 400]
  show ?thesis
    by (simp add: prod_eq_iff wrapPosition_def Let_def)
qed

section \<open>The weapon heat of the player\<close>



section \<open>Collisions\<close>



section \<open>The integration step\<close>

text \<open>
  Claim C8, as the specification states it, says that every component built by
  \<open>createPhysicsComponent\<close> has a mass above zero, for every options record, a negative
  mass included. The constructor asserts nothing: it replaces a missing or zero mass by 1
  and keeps any other number, so the option \<open>mass = -1\<close> gives a component of mass \<open>-1\<close>.
\<close>

theorem createPhysicsComponent_negative_mass:
  "mass (createPhysicsComponent (no_options\<lparr>opt_mass := Some (- 1)\<rparr>)) = - 1
   \<and> \<not> 0 < mass (createPhysicsComponent (no_options\<lparr>opt_mass := Some (- 1)\<rparr>))"
  by (simp add: createPhysicsComponent_def js_or_def no_options_def)

text \<open>
  Claim C8, amended: every component built by \<open>createPhysicsComponent\<close> has a mass
  different from zero, so \<open>updateEntity\<close> never divides by a zero mass on an entity that
  carries such a component (whatever its velocity and force have become since), and
  \<open>updateEntity\<close> returns an entity without a physics component unchanged.
\<close>

theorem updateEntity_never_divides_by_zero:
  "mass (createPhysicsComponent options) \<noteq> 0
   \<and> (physics e = None \<longrightarrow> updateEntity eng e deltaTime = Some e)
   \<and> (physics e = Some p \<and> mass p = mass (createPhysicsComponent options)
        \<longrightarrow> updateEntity eng e deltaTime \<noteq> None)"
  by (simp add: updateEntity_def createPhysicsComponent_def js_or_nonzero Let_def
      split: prod.splits)

text \<open>The amended claim at the option \<open>mass = 0\<close>, at an entity without physics, and at
  an entity whose component was built from that option and then set in motion.\<close>

theorem updateEntity_never_divides_by_zero_witness:
  "mass (createPhysicsComponent (no_options\<lparr>opt_mass := Some 0\<rparr>)) = 1
   \<and> updateEntity (PhysicsEngine 800 600)
        \<lparr>x = 10, y = 20, rotation = 0, alive = True, rotationSpeed = 0, physics = None,
         health = None\<rparr> 16
      = Some \<lparr>x = 10, y = 20, rotation = 0, alive = True, rotationSpeed = 0, physics = None,
              health = None\<rparr>
   \<and> updateEntity (PhysicsEngine 800 600)
        \<lparr>x = 10, y = 20, rotation = 0, alive = True, rotationSpeed = 0,
         physics = Some ((createPhysicsComponent (no_options\<lparr>opt_mass := Some 0\<rparr>))
                           \<lparr>velocity := \<lparr>vx = 50, vy = 0\<rparr>\<rparr>),
         health = None\<rparr> 16 \<noteq> None"
  using updateEntity_never_divides_by_zero
    [where options = "no_options\<lparr>opt_mass := Some 0\<rparr>"
       and e = "\<lparr>x = 10, y = 20, rotation = 0, alive = True, rotationSpeed = 0,
                 physics = None, health = None\<rparr>"
       and eng = "PhysicsEngine 800 600" and deltaTime = 16]
    updateEntity_never_divides_by_zero
    [where options = "no_options\<lparr>opt_mass := Some 0\<rparr>"
       and e = "\<lparr>x = 10, y = 20, rotation = 0, alive = True, rotationSpeed = 0,
                 physics = Some ((createPhysicsComponent (no_options\<lparr>opt_mass := Some 0\<rparr>))
                                   \<lparr>velocity := \<lparr>vx = 50, vy = 0\<rparr>\<rparr>),
                 health = None\<rparr>"
       and p = "(createPhysicsComponent (no_options\<lparr>opt_mass := Some 0\<rparr>))
                  \<lparr>velocity := \<lparr>vx = 50, vy = 0\<rparr>\<rparr>"
       and eng = "PhysicsEngine 800 600" and deltaTime = 16]
  by (simp add: createPhysicsComponent_def js_or_def no_options_def)

text \<open>
  Claim C9: an entity whose physics component has no accumulated force, damping 1 and no
  maximum velocity keeps its velocity over one step and moves by the velocity times
  \<open>deltaTime / 1000\<close>, as long as screen wrap is off or the new position lies within the
  screen; the force is zero afterwards. The mass is not zero, as for every component.
\<close>

theorem updateEntity_free_motion:
  assumes "physics e = Some p" and "mass p \<noteq> 0"
    and "force p = \<lparr>vx = 0, vy = 0\<rparr>" and "damping p = 1" and "maxVelocity p = None"
    and "x1 = x e + vx (velocity p) * (deltaTime / 1000)"
    and "y1 = y e + vy (velocity p) * (deltaTime / 1000)"
    and "\<not> screenWrap p \<or> (0 \<le> x1 \<and> x1 \<le> width eng \<and> 0 \<le> y1 \<and> y1 \<le> height eng)"
  shows "updateEntity eng e deltaTime =
           Some (e\<lparr>x := x1, y := y1,
                   physics := Some (p\<lparr>acceleration := \<lparr>vx = 0, vy = 0\<rparr>,
                                      force := \<lparr>vx = 0, vy = 0\<rparr>\<rparr>)\<rparr>)"
proof -
  have v: "\<lparr>vx = vx (velocity p), vy = vy (velocity p)\<rparr> = velocity p" by simp
  show ?thesis
    using assms
    by (auto simp add: updateEntity_def js_or_Some Let_def wrapPosition_def v)
qed

text \<open>The claim at an undamped body at \<open>(100, 100)\<close> with velocity \<open>(50, -25)\<close>, over 16 ms
  on the 800 by 600 screen.\<close>

theorem updateEntity_free_motion_witness:
  "updateEntity (PhysicsEngine 800 600)
     \<lparr>x = 100, y = 100, rotation = 0, alive = True, rotationSpeed = 0,
      physics = Some ((createPhysicsComponent (no_options\<lparr>opt_damping := Some 1\<rparr>))
                        \<lparr>velocity := \<lparr>vx = 50, vy = - 25\<rparr>\<rparr>),
      health = None\<rparr> 16
   = Some \<lparr>x = 1008 / 10, y = 996 / 10, rotation = 0, alive = True, rotationSpeed = 0,
           physics = Some ((createPhysicsComponent (no_options\<lparr>opt_damping := Some 1\<rparr>))
                             \<lparr>velocity := \<lparr>vx = 50, vy = - 25\<rparr>\<rparr>),
           health = None\<rparr>"
proof -
  let ?p = "(createPhysicsComponent (no_options\<lparr>opt_damping := Some 1\<rparr>))
              \<lparr>velocity := \<lparr>vx = 50, vy = - 25\<rparr>\<rparr>"
  let ?e = "\<lparr>x = 100, y = 100, rotation = 0, alive = True, rotationSpeed = 0,
             physics = Some ?p, health = None\<rparr>"
  have h1: "physics ?e = Some ?p" by simp
  have h2: "mass ?p \<noteq> 0" and h3: "force ?p = \<lparr>vx = 0, vy = 0\<rparr>" and h4: "damping ?p = 1"
    and h5: "maxVelocity ?p = None"
    by (simp_all add: createPhysicsComponent_def js_or_def no_options_def)
  have h6: "1008 / 10 = x ?e + vx (velocity ?p) * (16 / 1000)"
    and h7: "996 / 10 = y ?e + vy (velocity ?p) * (16 / 1000)"
    by simp_all
  have h8: "\<not> screenWrap ?p \<or> (0 \<le> (1008 / 10 :: real) \<and> 1008 / 10 \<le> width (PhysicsEngine 800 600)
              \<and> 0 \<le> (996 / 10 :: real) \<and> 996 / 10 \<le> height (PhysicsEngine 800 600))"
    by (simp add: PhysicsEngine_def)
  from updateEntity_free_motion [OF h1 h2 h3 h4 h5 h6 h7 h8]
  show ?thesis
    by (simp add: createPhysicsComponent_def js_or_def no_options_def)
qed

text \<open>
  Claim C10: \<open>createPhysicsComponent\<close> replaces a damping, a restitution or a mass of 0
  by the defaults 0.99, 0.8 and 1, so no component it builds has damping 0 or restitution
  0; and \<open>updateEntity\<close>, in an engine built by the \<open>PhysicsEngine\<close> constructor, treats a
  component whose damping field is 0 as it would the same component with damping 0.99
  (the field itself stays 0).
\<close>

theorem createPhysicsComponent_falsy_defaults:
  "(opt_damping options = Some 0 \<longrightarrow> damping (createPhysicsComponent options) = 99 / 100)
   \<and> (opt_restitution options = Some 0 \<longrightarrow>
        restitution (createPhysicsComponent options) = 8 / 10)
   \<and> (opt_mass options = Some 0 \<longrightarrow> mass (createPhysicsComponent options) = 1)
   \<and> damping (createPhysicsComponent options) \<noteq> 0
   \<and> restitution (createPhysicsComponent options) \<noteq> 0
   \<and> (physics e = Some p \<and> damping p = 0 \<longrightarrow>
        updateEntity (PhysicsEngine w h) e deltaTime =
          map_option (\<lambda>e'. e'\<lparr>physics := map_option (\<lambda>q. q\<lparr>damping := 0\<rparr>) (physics e')\<rparr>)
            (updateEntity (PhysicsEngine w h) (e\<lparr>physics := Some (p\<lparr>damping := 99 / 100\<rparr>)\<rparr>)
               deltaTime))"
  by (auto simp add: updateEntity_def createPhysicsComponent_def js_or_def PhysicsEngine_def
      Let_def split: prod.splits option.splits)

text \<open>The claim at options that are all zero, and at a body of velocity \<open>(100, 0)\<close> whose
  damping field was set to 0 by hand: after 1000 ms its velocity is \<open>(99, 0)\<close>.\<close>

theorem createPhysicsComponent_falsy_defaults_witness:
  "damping (createPhysicsComponent
      (no_options\<lparr>opt_damping := Some 0, opt_restitution := Some 0, opt_mass := Some 0\<rparr>))
     = 99 / 100
   \<and> restitution (createPhysicsComponent
      (no_options\<lparr>opt_damping := Some 0, opt_restitution := Some 0, opt_mass := Some 0\<rparr>))
     = 8 / 10
   \<and> mass (createPhysicsComponent
      (no_options\<lparr>opt_damping := Some 0, opt_restitution := Some 0, opt_mass := Some 0\<rparr>))
     = 1
   \<and> updateEntity (PhysicsEngine 800 600)
        \<lparr>x = 100, y = 100, rotation = 0, alive = True, rotationSpeed = 0,
         physics = Some ((createPhysicsComponent no_options)
                           \<lparr>velocity := \<lparr>vx = 100, vy = 0\<rparr>, damping := 0\<rparr>),
         health = None\<rparr> 1000
     = Some \<lparr>x = 199, y = 100, rotation = 0, alive = True, rotationSpeed = 0,
         physics = Some ((createPhysicsComponent no_options)
                           \<lparr>velocity := \<lparr>vx = 99, vy = 0\<rparr>, damping := 0\<rparr>),
         health = None\<rparr>"
  using createPhysicsComponent_falsy_defaults
    [where options = "no_options\<lparr>opt_damping := Some 0, opt_restitution := Some 0,
                        opt_mass := Some 0\<rparr>"
       and e = "\<lparr>x = 100, y = 100, rotation = 0, alive = True, rotationSpeed = 0,
                 physics = Some ((createPhysicsComponent no_options)
                                   \<lparr>velocity := \<lparr>vx = 100, vy = 0\<rparr>, damping := 0\<rparr>),
                 health = None\<rparr>"
       and p = "(createPhysicsComponent no_options)
                  \<lparr>velocity := \<lparr>vx = 100, vy = 0\<rparr>, damping := 0\<rparr>"
       and w = 800 and h = 600 and deltaTime = 1000]
  by (simp add: updateEntity_def createPhysicsComponent_def js_or_def no_options_def
      PhysicsEngine_def wrapPosition_def Let_def)

section \<open>Asteroid fragmentation\<close>




end
